theory Spec2Isabelle
  imports Complex_Main "HOL-Library.Word"
begin

section \<open>Errors\<close>

text \<open>
  The sentinel errors of the packages (\<open>ErrNotConnected\<close> and \<open>ErrQueueEmpty\<close> of the
  player, \<open>audio.ErrManualStop\<close>, \<open>io.EOF\<close>, \<open>ErrNotFound\<close> of the store,
  \<open>ErrSongNotFound\<close> of the search), the errors made by \<open>errors.New\<close>, and the
  wrapping of \<open>errors.Wrap(err, msg)\<close>. Where the source formats an argument into the
  message (\<open>errors.Wrapf\<close>), the message is kept without the argument.
\<close>

datatype error =
    ErrNotConnected
  | ErrQueueEmpty
  | ErrManualStop
  | EOF
  | ErrNotFound
  | ErrSongNotFound
  | New string
  | Wrap error string

text \<open>\<open>errors.Is(err, target)\<close>: \<open>err\<close> or an error it wraps is the target.\<close>

fun errors_Is :: "error \<Rightarrow> error \<Rightarrow> bool" where
  "errors_Is (Wrap e m) t = (Wrap e m = t \<or> errors_Is e t)"
| "errors_Is e t = (e = t)"

datatype panic = IndexOutOfRange

section \<open>Songs\<close>

record SongID =
  id_ID :: string
  id_Service :: string

text \<open>
  \<open>pkg.Song\<close>, with the fields the sources read and write. \<open>Playbacks\<close> is a Go
  \<open>int\<close> (64 bits, \<open>++\<close> wraps), \<open>Duration\<close> a number of seconds, \<open>LastPlay\<close> a
  point in time (0 when unset).
\<close>

record Song =
  Title :: string
  URL :: string
  Service :: string
  ArtistName :: string
  ArtistURL :: string
  ArtworkURL :: string
  ThumbnailURL :: string
  Playbacks :: "64 word"
  LastPlay :: nat
  ID :: SongID
  StreamURL :: string
  Duration :: real

definition ServiceYouTube :: string where
  "ServiceYouTube = ''youtube''"

definition emptySong :: Song where
  "emptySong = \<lparr>Title = [], URL = [], Service = [], ArtistName = [], ArtistURL = [],
     ArtworkURL = [], ThumbnailURL = [], Playbacks = 0, LastPlay = 0,
     ID = \<lparr>id_ID = [], id_Service = []\<rparr>, StreamURL = [], Duration = 0\<rparr>"

text \<open>
  Modelled from the spec: \<open>Song.MergeNoOverride\<close> of package \<open>pkg\<close> is not among the
  sources. The spec has resolution and persistence fill in a track without overriding
  already-populated fields: a field of the receiver that holds its zero value takes the
  value of the other song, a populated field stays; a nil argument merges nothing.
\<close>

definition MergeNoOverride :: "Song \<Rightarrow> Song option \<Rightarrow> Song" where
  "MergeNoOverride s other =
     (case other of
        None \<Rightarrow> s
      | Some n \<Rightarrow>
          \<lparr>Title = (if Title s = [] then Title n else Title s),
           URL = (if URL s = [] then URL n else URL s),
           Service = (if Service s = [] then Service n else Service s),
           ArtistName = (if ArtistName s = [] then ArtistName n else ArtistName s),
           ArtistURL = (if ArtistURL s = [] then ArtistURL n else ArtistURL s),
           ArtworkURL = (if ArtworkURL s = [] then ArtworkURL n else ArtworkURL s),
           ThumbnailURL = (if ThumbnailURL s = [] then ThumbnailURL n else ThumbnailURL s),
           Playbacks = (if Playbacks s = 0 then Playbacks n else Playbacks s),
           LastPlay = (if LastPlay s = 0 then LastPlay n else LastPlay s),
           ID = \<lparr>id_ID = (if id_ID (ID s) = [] then id_ID (ID n) else id_ID (ID s)),
                 id_Service = (if id_Service (ID s) = [] then id_Service (ID n)
                               else id_Service (ID s))\<rparr>,
           StreamURL = (if StreamURL s = [] then StreamURL n else StreamURL s),
           Duration = (if Duration s = 0 then Duration n else Duration s)\<rparr>)"

section \<open>The player behind the music service\<close>

datatype player_state = Idle | Connecting | Playing | Paused | Stopped

text \<open>
  Modelled from the spec: type \<open>Player\<close> of package \<open>player\<close> (its \<open>Connect\<close>,
  \<open>Play\<close>, \<open>Stop\<close>, \<open>Disconnect\<close>, \<open>NowPlaying\<close> and the voice client's
  \<open>IsConnected\<close>) is not among the sources; the music service embeds it and calls
  these methods. The state is the connected destination (guild and channel), the track
  now playing, the queue and the lifecycle state of section 4.2 of the spec.
\<close>

record Player =
  voice :: "(string \<times> string) option"
  now :: "Song option"
  queue :: "Song list"
  pstate :: player_state

text \<open>Modelled from the spec: the voice client's \<open>IsConnected\<close>, a destination is connected.\<close>

definition IsConnected :: "Player \<Rightarrow> bool" where
  "IsConnected p = (voice p \<noteq> None)"

text \<open>Modelled from the spec: \<open>NowPlaying\<close>, the track in the now-playing slot, if any.\<close>

definition NowPlaying :: "Player \<Rightarrow> Song option" where
  "NowPlaying p = now p"

text \<open>
  Modelled from the spec: \<open>Connect\<close> is valid from any state, replaces an older
  connection, and leaves the state unchanged when the transport refuses the link
  (\<open>accepts\<close> is the transport's answer).
\<close>

definition Player_Connect :: "(string \<Rightarrow> string \<Rightarrow> bool) \<Rightarrow> string \<Rightarrow> string \<Rightarrow> Player \<Rightarrow> Player" where
  "Player_Connect accepts guildID channelID p =
     (if accepts guildID channelID
      then p\<lparr>voice := Some (guildID, channelID),
             pstate := (if pstate p = Idle then Stopped else pstate p)\<rparr>
      else p)"

text \<open>
  Modelled from the spec: \<open>Play\<close> requires a connection; it appends the track to the
  queue and, when no track is playing, promotes the head of the queue to now playing and
  enters \<open>Playing\<close>.
\<close>

definition Player_Play :: "Song \<Rightarrow> Player \<Rightarrow> Player" where
  "Player_Play song p =
     (if voice p = None then p
      else if now p = None
      then (case queue p @ [song] of
              h # t \<Rightarrow> p\<lparr>now := Some h, queue := t, pstate := Playing\<rparr>
            | [] \<Rightarrow> p)
      else p\<lparr>queue := queue p @ [song]\<rparr>)"

text \<open>Modelled from the spec: \<open>Stop\<close> clears now playing and keeps the queue.\<close>

definition Player_Stop :: "Player \<Rightarrow> Player" where
  "Player_Stop p = p\<lparr>now := None, pstate := Stopped\<rparr>"

text \<open>Modelled from the spec: \<open>Disconnect\<close> always yields \<open>Idle\<close> with an empty queue.\<close>

definition Player_Disconnect :: "Player \<Rightarrow> Player" where
  "Player_Disconnect p = p\<lparr>voice := None, now := None, queue := [], pstate := Idle\<rparr>"

section \<open>The music service (radio coordinator)\<close>

text \<open>
  The collaborators behind the interfaces \<open>Firestore\<close>, \<open>YouTube\<close> and the voice
  client, and the clock. \<open>EnsureStreamInfo\<close> and \<open>GetRandomSongs\<close> answer by the
  number of earlier calls, so that a collaborator may fail first and succeed later.
  \<open>UpsertSongIncPlaybacks\<close> and \<open>IncrementUserRequests\<close> receive the song by pointer:
  they return the song as they leave it.
\<close>

record Collab =
  FindSong_i :: "string \<Rightarrow> error + Song"
  EnsureStreamInfo_i :: "nat \<Rightarrow> Song \<Rightarrow> error + Song"
  UpsertSongIncPlaybacks_i :: "Song \<Rightarrow> Song \<times> 64 word \<times> error option"
  IncrementUserRequests_i :: "Song \<Rightarrow> string \<Rightarrow> Song"
  GetRandomSongs_i :: "nat \<Rightarrow> int \<Rightarrow> error + Song list"
  voice_accepts :: "string \<Rightarrow> string \<Rightarrow> bool"
  time_Now :: nat

datatype log_entry =
    LogDebug string
  | LogError error
  | LogErrorMsg string error

text \<open>
  \<open>Service\<close> of package \<open>player\<close>: the embedded player, the radio flag and the
  logger's output. \<open>random_calls\<close> and \<open>ensure_calls\<close> count the calls made to
  the two collaborators; \<open>subscribers\<close> holds, for each handler registered through
  \<open>Service.SubscribeOnErrors\<close>, the errors that handler has been called with.
\<close>

record Service =
  player :: Player
  isRadio :: bool
  logger :: "log_entry list"
  random_calls :: nat
  ensure_calls :: nat
  subscribers :: "error list list"

definition setRadio :: "bool \<Rightarrow> Service \<Rightarrow> Service" where
  "setRadio b s = s\<lparr>isRadio := b\<rparr>"

definition RadioStatus :: "Service \<Rightarrow> bool" where
  "RadioStatus s = isRadio s"

definition Connect :: "Collab \<Rightarrow> string \<Rightarrow> string \<Rightarrow> Service \<Rightarrow> Service" where
  "Connect c guildID channelID s =
     s\<lparr>player := Player_Connect (voice_accepts c) guildID channelID (player s)\<rparr>"

text \<open>
  \<open>Service.Play\<close>. The result is the triple the Go function returns (song, play
  count, error) and the service afterwards. The player's \<open>Play\<close> is started with
  \<open>go\<close>; the model runs it at once.
\<close>

definition Play :: "Collab \<Rightarrow> string \<Rightarrow> string \<Rightarrow> string \<Rightarrow> string \<Rightarrow> Service
    \<Rightarrow> (Song option \<times> 64 word \<times> error option) \<times> Service" where
  "Play c query userID guildID channelID s =
     (if \<not> IsConnected (player s) \<and> (channelID = [] \<or> guildID = [])
      then ((None, 0, Some ErrNotConnected), s)
      else
        let s1 = s\<lparr>logger := logger s @ [LogDebug ''Finding song'']\<rparr> in
        case FindSong_i c query of
          Inl err \<Rightarrow> ((None, 0, Some (Wrap err ''find and load song from youtube'')), s1)
        | Inr song \<Rightarrow>
            let s2 = (if channelID \<noteq> [] \<or> guildID \<noteq> [] then Connect c guildID channelID s1 else s1);
                song1 = song\<lparr>LastPlay := time_Now c\<rparr>;
                (song2, playbacks, err) = UpsertSongIncPlaybacks_i c song1;
                err1 = (case err of None \<Rightarrow> None
                        | Some e \<Rightarrow> Some (Wrap e ''upsert song with increment''));
                song3 = (if userID \<noteq> [] then IncrementUserRequests_i c song2 userID else song2)
            in ((Some song3, playbacks, err1), s2\<lparr>player := Player_Play song3 (player s2)\<rparr>))"

text \<open>
  \<open>playRandomSong\<close> calls itself when the resolution of the selected song fails, with
  no bound on the number of attempts: the result is \<open>None\<close> when it never returns.
  \<open>songs[0]\<close> panics on an empty slice.
\<close>

partial_function (option) playRandomSong :: "Collab \<Rightarrow> Service \<Rightarrow> (panic + error option \<times> Service) option" where
  "playRandomSong c s =
     (case GetRandomSongs_i c (random_calls s) 1 of
        Inl err \<Rightarrow>
          Some (Inr (Some (Wrap err ''get 1 random song from bd''),
                     s\<lparr>random_calls := Suc (random_calls s)\<rparr>))
      | Inr songs \<Rightarrow>
          (case songs of
             [] \<Rightarrow> Some (Inl IndexOutOfRange)
           | song # rest \<Rightarrow>
               if StreamURL song = []
               then (case EnsureStreamInfo_i c (ensure_calls s) song of
                       Inl err \<Rightarrow>
                         playRandomSong c
                           (s\<lparr>random_calls := Suc (random_calls s),
                              ensure_calls := Suc (ensure_calls s),
                              logger := logger s @ [LogError (Wrap err ''ensure stream info for radio'')]\<rparr>)
                     | Inr song' \<Rightarrow>
                         Some (Inr (None,
                           s\<lparr>random_calls := Suc (random_calls s),
                              ensure_calls := Suc (ensure_calls s),
                              player := Player_Play song' (player s)\<rparr>)))
               else Some (Inr (None,
                      s\<lparr>random_calls := Suc (random_calls s),
                         player := Player_Play song (player s)\<rparr>))))"

definition SetRadio :: "Collab \<Rightarrow> bool \<Rightarrow> string \<Rightarrow> string \<Rightarrow> Service
    \<Rightarrow> (panic + error option \<times> Service) option" where
  "SetRadio c b guildID channelID s =
     (let s1 = setRadio b s in
      if \<not> b then Some (Inr (None, s1))
      else if \<not> IsConnected (player s1) \<and> (guildID = [] \<or> channelID = [])
      then Some (Inr (Some ErrNotConnected, s1))
      else
        let s2 = (if \<not> IsConnected (player s1)
                  then s1\<lparr>player := Player_Connect (voice_accepts c) guildID channelID (player s1)\<rparr>
                  else s1)
        in if NowPlaying (player s2) = None then playRandomSong c s2
           else Some (Inr (None, s2)))"

definition handleError :: "Collab \<Rightarrow> error \<Rightarrow> Service \<Rightarrow> (panic + Service) option" where
  "handleError c err s =
     (if errors_Is err ErrQueueEmpty
      then (if RadioStatus s
            then (case playRandomSong c s of
                    None \<Rightarrow> None
                  | Some (Inl p) \<Rightarrow> Some (Inl p)
                  | Some (Inr (None, s1)) \<Rightarrow> Some (Inr s1)
                  | Some (Inr (Some e, s1)) \<Rightarrow>
                      Some (Inr (setRadio False
                        (s1\<lparr>logger := logger s1 @ [LogError (Wrap e ''radio failed'')]\<rparr>))))
            else Some (Inr s))
      else if \<not> errors_Is err ErrManualStop \<and> \<not> errors_Is err EOF
      then Some (Inr (setRadio False (s\<lparr>logger := logger s @ [LogErrorMsg ''error from player'' err]\<rparr>)))
      else Some (Inr s))"

text \<open>
  \<open>Service.SubscribeOnErrors(h)\<close> registers with the player a function that drops
  \<open>io.EOF\<close>, the manual stop and the empty queue and calls \<open>h\<close> with every other
  error. \<open>subscriber_wrapper\<close> is that function, on the list of errors \<open>h\<close> has seen.
\<close>

definition SubscribeOnErrors :: "Service \<Rightarrow> Service" where
  "SubscribeOnErrors s = s\<lparr>subscribers := subscribers s @ [[]]\<rparr>"

definition subscriber_wrapper :: "error \<Rightarrow> error list \<Rightarrow> error list" where
  "subscriber_wrapper err seen =
     (if errors_Is err EOF \<or> errors_Is err ErrManualStop \<or> errors_Is err ErrQueueEmpty
      then seen
      else seen @ [err])"

text \<open>
  Modelled from the spec: the player's own \<open>SubscribeOnErrors\<close> and the delivery of an
  event are not among the sources. Every subscriber sees every event once, in the order
  of registration: \<open>handleError\<close> first (\<open>NewMusicService\<close> registers it), then the
  functions registered by \<open>Service.SubscribeOnErrors\<close>.
\<close>

definition deliver :: "Collab \<Rightarrow> error \<Rightarrow> Service \<Rightarrow> (panic + Service) option" where
  "deliver c err s =
     (case handleError c err s of
        None \<Rightarrow> None
      | Some (Inl p) \<Rightarrow> Some (Inl p)
      | Some (Inr s1) \<Rightarrow>
          Some (Inr (s1\<lparr>subscribers := map (subscriber_wrapper err) (subscribers s1)\<rparr>)))"

definition Stop :: "Service \<Rightarrow> Service" where
  "Stop s = (let s1 = setRadio False s in s1\<lparr>player := Player_Stop (player s1)\<rparr>)"

definition Disconnect :: "Service \<Rightarrow> Service" where
  "Disconnect s = (let s1 = setRadio False s in s1\<lparr>player := Player_Disconnect (player s1)\<rparr>)"

section \<open>The song store\<close>

text \<open>
  Modelled from the spec: \<open>SongsCache.KeyFromID\<close> is not among the sources; a track's
  stable identity is its service and its per-service id, and the key is made of both.
\<close>

definition KeyFromID :: "SongID \<Rightarrow> string" where
  "KeyFromID i = id_Service i @ ''_'' @ id_ID i"

text \<open>
  Modelled from the spec: the \<open>Client\<close> of package \<open>firestore\<close> is not among the
  sources. It is the persistent store, here a table of songs by identity;
  \<open>get_fault\<close> and \<open>set_fault\<close> are the failures of the remote store, when it has one.
\<close>

record Client =
  db :: "SongID \<Rightarrow> Song option"
  get_fault :: "SongID \<Rightarrow> error option"
  set_fault :: "Song \<Rightarrow> error option"



text \<open>
  \<open>Service\<close> of package \<open>firestore\<close>: the cache of songs by key, the client, the
  list of all song identities (\<open>songsShort.List\<close>) and the \<open>updated\<close> flag.
\<close>

record Firestore_Service =
  songs :: "string \<Rightarrow> Song option"
  client :: Client
  songsShort :: "SongID list"
  updated :: bool









section \<open>The resolver\<close>

definition videoPrefix :: string where
  "videoPrefix = ''https://youtube.com/watch?v=''"

definition videoFormat :: string where
  "videoFormat = ''.m4a''"

definition videoType :: string where
  "videoType = ''audio/mp4''"

text \<open>The video description of the download library, with the fields the sources read.\<close>

record Thumbnail =
  th_URL :: string
  th_Height :: nat

record Format =
  ItagNo :: int
  MimeType :: string
  AudioChannels :: int

record Video =
  v_ID :: string
  v_Title :: string
  v_Author :: string
  v_Duration :: real
  v_Thumbnails :: "Thumbnail list"
  v_Formats :: "Format list"

record Config =
  Download :: bool
  OutputDir :: string

text \<open>
  \<open>YouTube\<close> of package \<open>youtube\<close>: the song cache (\<open>cache_Get\<close>), the
  configuration, and the operations of the download library and of \<open>filepath\<close>
  that \<open>EnsureStreamInfo\<close> calls.
\<close>

record YouTube =
  cache_Get :: "string \<Rightarrow> Song option"
  config :: Config
  ytdl_GetVideo :: "string \<Rightarrow> error + Video"
  ytdl_GetStreamURL :: "Video \<Rightarrow> Format \<Rightarrow> error + string"
  dl_Download :: "Video \<Rightarrow> Format \<Rightarrow> string \<Rightarrow> error option"
  Formats_Sort :: "Format list \<Rightarrow> Format list"
  filepath_Join :: "string \<Rightarrow> string \<Rightarrow> string"

fun getYTDLImages_loop :: "Thumbnail list \<Rightarrow> nat \<Rightarrow> nat \<Rightarrow> nat \<Rightarrow> nat" where
  "getYTDLImages_loop [] i maxHeight maxIter = maxIter"
| "getYTDLImages_loop (t # ts) i maxHeight maxIter =
     (if th_Height t > maxHeight
      then getYTDLImages_loop ts (Suc i) (th_Height t) i
      else getYTDLImages_loop ts (Suc i) maxHeight maxIter)"

definition getYTDLImages :: "Thumbnail list \<Rightarrow> string \<times> string" where
  "getYTDLImages ts =
     (if length ts = 0 then ([], [])
      else (let maxIter = getYTDLImages_loop ts 0 0 0
            in (th_URL (ts ! maxIter), th_URL (ts ! maxIter))))"

definition songFromInfo :: "Video \<Rightarrow> Song" where
  "songFromInfo v =
     (case getYTDLImages (v_Thumbnails v) of
        (art, thumb) \<Rightarrow>
          \<lparr>Title = v_Title v, URL = videoPrefix @ v_ID v, Service = ServiceYouTube,
           ArtistName = v_Author v, ArtistURL = [], ArtworkURL = art, ThumbnailURL = thumb,
           Playbacks = 0, LastPlay = 0,
           ID = \<lparr>id_ID = v_ID v, id_Service = ServiceYouTube\<rparr>,
           StreamURL = [], Duration = v_Duration v\<rparr>)"

text \<open>\<open>strings.Contains\<close>, which the library's \<open>Type\<close> filter applies to the MIME type.\<close>

fun has_prefix :: "string \<Rightarrow> string \<Rightarrow> bool" where
  "has_prefix s [] = True"
| "has_prefix [] (c # cs) = False"
| "has_prefix (d # ds) (c # cs) = (d = c \<and> has_prefix ds cs)"

fun strings_Contains :: "string \<Rightarrow> string \<Rightarrow> bool" where
  "strings_Contains [] sub = (sub = [])"
| "strings_Contains (d # ds) sub = (has_prefix (d # ds) sub \<or> strings_Contains ds sub)"

definition audio_formats :: "Video \<Rightarrow> Format list" where
  "audio_formats v =
     filter (\<lambda>f. strings_Contains (MimeType f) videoType)
       (filter (\<lambda>f. AudioChannels f > 0) (v_Formats v))"

definition EnsureStreamInfo :: "YouTube \<Rightarrow> Song \<Rightarrow> error + Song" where
  "EnsureStreamInfo y song =
     (case cache_Get y (KeyFromID (ID song)) of
        Some s \<Rightarrow> Inr (song\<lparr>StreamURL := StreamURL s, Duration := Duration s\<rparr>)
      | None \<Rightarrow>
          (case ytdl_GetVideo y (URL song) of
             Inl err \<Rightarrow> Inl (Wrap err ''loag video metadata by url'')
           | Inr videoInfo \<Rightarrow>
               let formats = audio_formats videoInfo in
               if length formats = 0 then Inl (New ''unable to get list of formats'')
               else if Download (config y)
               then
                 (let format = last (Formats_Sort y formats);
                      fileName = v_ID videoInfo @ videoFormat;
                      song1 = song\<lparr>StreamURL := filepath_Join y (OutputDir (config y)) fileName\<rparr>
                  in case dl_Download y videoInfo format fileName of
                       Some err \<Rightarrow> Inl err
                     | None \<Rightarrow> Inr (MergeNoOverride song1 (Some (songFromInfo videoInfo))))
               else
                 (let format = hd (sort_key ItagNo formats)
                  in case ytdl_GetStreamURL y videoInfo format of
                       Inl err \<Rightarrow> Inl (Wrap err ''unable to get streamURL'')
                     | Inr streamURL \<Rightarrow>
                         Inr (MergeNoOverride (song\<lparr>StreamURL := streamURL\<rparr>)
                                (Some (songFromInfo videoInfo))))))"

section \<open>Notions used in the statements\<close>

text \<open>
  One attempt of \<open>playRandomSong\<close> fails when the provider's answer to request number
  \<open>r\<close> starts with a song without stream reference and the resolver's call number \<open>e\<close>
  fails on it; \<open>retry_state\<close> is the service as that attempt leaves it, when the
  function calls itself.
\<close>

definition attempt_fails :: "Collab \<Rightarrow> nat \<Rightarrow> nat \<Rightarrow> bool" where
  "attempt_fails c r e =
     (case GetRandomSongs_i c r 1 of
        Inl err \<Rightarrow> False
      | Inr sl \<Rightarrow>
          (case sl of
             [] \<Rightarrow> False
           | song # rest \<Rightarrow> StreamURL song = [] \<and> isl (EnsureStreamInfo_i c e song)))"

definition retry_state :: "Collab \<Rightarrow> Service \<Rightarrow> Service" where
  "retry_state c s =
     s\<lparr>random_calls := Suc (random_calls s),
       ensure_calls := Suc (ensure_calls s),
       logger := logger s @
         [LogError (Wrap (projl (EnsureStreamInfo_i c (ensure_calls s)
             (hd (projr (GetRandomSongs_i c (random_calls s) 1))))) ''ensure stream info for radio'')]\<rparr>"

text \<open>The log entries written by \<open>handleError\<close> when the refill of the radio fails.\<close>

fun is_radio_failed :: "log_entry \<Rightarrow> bool" where
  "is_radio_failed (LogError (Wrap e m)) = (m = ''radio failed'')"
| "is_radio_failed entry = False"

section \<open>Concrete songs, services and collaborators\<close>

definition song_T :: Song where
  "song_T = emptySong\<lparr>Title := ''T'', URL := ''https://youtube.com/watch?v=t1'',
     ID := \<lparr>id_ID = ''t1'', id_Service = ''youtube''\<rparr>, StreamURL := ''stream/t1''\<rparr>"

definition song_U :: Song where
  "song_U = emptySong\<lparr>Title := ''U'', URL := ''https://youtube.com/watch?v=u1'',
     ID := \<lparr>id_ID = ''u1'', id_Service = ''youtube''\<rparr>\<rparr>"

definition player_stopped :: Player where
  "player_stopped = \<lparr>voice = Some (''g'', ''ch''), now = None, queue = [], pstate = Stopped\<rparr>"

definition player_idle :: Player where
  "player_idle = \<lparr>voice = None, now = None, queue = [], pstate = Idle\<rparr>"

definition service_radio :: Service where
  "service_radio = \<lparr>player = player_stopped, isRadio = True, logger = [],
     random_calls = 0, ensure_calls = 0, subscribers = [[]]\<rparr>"

definition service_idle :: Service where
  "service_idle = \<lparr>player = player_idle, isRadio = False, logger = [],
     random_calls = 0, ensure_calls = 0, subscribers = [[]]\<rparr>"

definition collab_ok :: Collab where
  "collab_ok =
     \<lparr>FindSong_i = (\<lambda>q. Inr song_T),
      EnsureStreamInfo_i = (\<lambda>k sg. Inr (sg\<lparr>StreamURL := ''stream/u1''\<rparr>)),
      UpsertSongIncPlaybacks_i = (\<lambda>sg. (sg\<lparr>Playbacks := Playbacks sg + 1\<rparr>, Playbacks sg + 1, None)),
      IncrementUserRequests_i = (\<lambda>sg u. sg),
      GetRandomSongs_i = (\<lambda>k n. Inr [song_U]),
      voice_accepts = (\<lambda>g ch. True),
      time_Now = 7\<rparr>"

definition collab_unresolvable :: Collab where
  "collab_unresolvable =
     collab_ok\<lparr>EnsureStreamInfo_i := (\<lambda>k sg. Inl (New ''unable to get list of formats''))\<rparr>"

definition collab_flaky :: Collab where
  "collab_flaky = collab_ok\<lparr>EnsureStreamInfo_i :=
     (\<lambda>k sg. if k < 2 then Inl (New ''unable to get list of formats'')
             else Inr (sg\<lparr>StreamURL := ''stream/u1''\<rparr>))\<rparr>"

definition collab_store_down :: Collab where
  "collab_store_down =
     collab_ok\<lparr>UpsertSongIncPlaybacks_i := (\<lambda>sg. (sg, 0, Some (New ''db down'')))\<rparr>"



definition youtube_cached :: YouTube where
  "youtube_cached =
     \<lparr>cache_Get = (\<lambda>k. if k = KeyFromID (ID song_T)
                         then Some (song_T\<lparr>StreamURL := ''stream/cached'', Duration := 200\<rparr>)
                         else if k = KeyFromID (ID song_U) then Some song_U else None),
      config = \<lparr>Download = False, OutputDir = ''out''\<rparr>,
      ytdl_GetVideo = (\<lambda>u. Inl (New ''offline'')),
      ytdl_GetStreamURL = (\<lambda>v f. Inl (New ''offline'')),
      dl_Download = (\<lambda>v f n. Some (New ''offline'')),
      Formats_Sort = (\<lambda>fs. fs),
      filepath_Join = (\<lambda>d n. d @ ''/'' @ n)\<rparr>"

definition video_u :: Video where
  "video_u = \<lparr>v_ID = ''u1'', v_Title = ''U (official)'', v_Author = ''artist'', v_Duration = 180,
     v_Thumbnails = [\<lparr>th_URL = ''thumb/u1'', th_Height = 90\<rparr>],
     v_Formats = [\<lparr>ItagNo = 140, MimeType = ''audio/mp4; codecs=mp4a'', AudioChannels = 2\<rparr>]\<rparr>"

definition youtube_live :: YouTube where
  "youtube_live =
     \<lparr>cache_Get = (\<lambda>k. None),
      config = \<lparr>Download = False, OutputDir = ''out''\<rparr>,
      ytdl_GetVideo = (\<lambda>u. Inr video_u),
      ytdl_GetStreamURL = (\<lambda>v f. Inr ''stream/live''),
      dl_Download = (\<lambda>v f n. None),
      Formats_Sort = (\<lambda>fs. fs),
      filepath_Join = (\<lambda>d n. d @ ''/'' @ n)\<rparr>"


section \<open>The refill of the radio, attempt by attempt\<close>

lemma playRandomSong_retry:
  "attempt_fails c (random_calls s) (ensure_calls s) \<Longrightarrow>
     playRandomSong c s = playRandomSong c (retry_state c s)"
  by (subst playRandomSong.simps)
     (auto simp: attempt_fails_def retry_state_def split: sum.splits list.splits)

lemma playRandomSong_done:
  "\<not> attempt_fails c (random_calls s) (ensure_calls s) \<Longrightarrow> \<exists>res. playRandomSong c s = Some res"
  by (subst playRandomSong.simps)
     (auto simp: attempt_fails_def split: sum.splits list.splits)

lemma retry_state_fields:
  "random_calls (retry_state c s) = Suc (random_calls s)"
  "ensure_calls (retry_state c s) = Suc (ensure_calls s)"
  "player (retry_state c s) = player s"
  "isRadio (retry_state c s) = isRadio s"
  "subscribers (retry_state c s) = subscribers s"
  "filter is_radio_failed (logger (retry_state c s)) = filter is_radio_failed (logger s)"
  by (simp_all add: retry_state_def)

lemma playRandomSong_returns:
  "\<not> attempt_fails c (random_calls s + n) (ensure_calls s + n) \<Longrightarrow>
     \<exists>res. playRandomSong c s = Some res"
proof (induction n arbitrary: s)
  case 0
  then show ?case using playRandomSong_done by simp
next
  case (Suc n)
  show ?case
  proof (cases "attempt_fails c (random_calls s) (ensure_calls s)")
    case True
    have "\<exists>res. playRandomSong c (retry_state c s) = Some res"
      using Suc.prems by (intro Suc.IH) (simp add: retry_state_fields)
    then show ?thesis using playRandomSong_retry [OF True] by simp
  next
    case False
    then show ?thesis by (rule playRandomSong_done)
  qed
qed

lemma playRandomSong_returned:
  assumes "playRandomSong c s = Some res"
  shows "\<exists>n. \<not> attempt_fails c (random_calls s + n) (ensure_calls s + n)"
  using assms
proof (induction rule: playRandomSong.raw_induct [rotated, consumes 1, case_names step])
  case (step f c s res)
  show ?case
  proof (cases "attempt_fails c (random_calls s) (ensure_calls s)")
    case True
    then have "f c (retry_state c s) = Some res"
      using step(2) by (auto simp: attempt_fails_def retry_state_def split: sum.splits list.splits)
    from step(1) [OF this] obtain n where
      "\<not> attempt_fails c (random_calls (retry_state c s) + n) (ensure_calls (retry_state c s) + n)"
      by blast
    then have "\<not> attempt_fails c (random_calls s + Suc n) (ensure_calls s + Suc n)"
      by (simp add: retry_state_fields)
    then show ?thesis by blast
  next
    case False
    then have "\<not> attempt_fails c (random_calls s + 0) (ensure_calls s + 0)" by simp
    then show ?thesis by blast
  qed
qed

lemma playRandomSong_never_returns:
  "(\<And>n. attempt_fails c (random_calls s + n) (ensure_calls s + n)) \<Longrightarrow> playRandomSong c s = None"
  using playRandomSong_returned [of c s] by (cases "playRandomSong c s") auto

lemma playRandomSong_frame_aux:
  assumes "playRandomSong c s = Some res"
  shows "\<forall>r s1. res = Inr (r, s1) \<longrightarrow>
           isRadio s1 = isRadio s \<and> subscribers s1 = subscribers s
           \<and> filter is_radio_failed (logger s1) = filter is_radio_failed (logger s)
           \<and> (r \<noteq> None \<longrightarrow> player s1 = player s)"
  using assms
proof (induction rule: playRandomSong.raw_induct [rotated, consumes 1, case_names step])
  case (step f c s res)
  show ?case
  proof (cases "attempt_fails c (random_calls s) (ensure_calls s)")
    case True
    then have "f c (retry_state c s) = Some res"
      using step(2) by (auto simp: attempt_fails_def retry_state_def split: sum.splits list.splits)
    from step(1) [OF this] have IH: "\<forall>r s1. res = Inr (r, s1) \<longrightarrow>
           isRadio s1 = isRadio (retry_state c s) \<and> subscribers s1 = subscribers (retry_state c s)
           \<and> filter is_radio_failed (logger s1) = filter is_radio_failed (logger (retry_state c s))
           \<and> (r \<noteq> None \<longrightarrow> player s1 = player (retry_state c s))" .
    show ?thesis
    proof (intro allI impI)
      fix r s1
      assume "res = Inr (r, s1)"
      with IH have "isRadio s1 = isRadio (retry_state c s) \<and> subscribers s1 = subscribers (retry_state c s)
           \<and> filter is_radio_failed (logger s1) = filter is_radio_failed (logger (retry_state c s))
           \<and> (r \<noteq> None \<longrightarrow> player s1 = player (retry_state c s))"
        by blast
      then show "isRadio s1 = isRadio s \<and> subscribers s1 = subscribers s
           \<and> filter is_radio_failed (logger s1) = filter is_radio_failed (logger s)
           \<and> (r \<noteq> None \<longrightarrow> player s1 = player s)"
        by (simp add: retry_state_fields)
    qed
  next
    case False
    show ?thesis
    proof (cases "GetRandomSongs_i c (random_calls s) 1")
      case (Inl err)
      then show ?thesis using step(2) by auto
    next
      case (Inr sl)
      show ?thesis
      proof (cases sl)
        case Nil
        then show ?thesis using step(2) Inr by auto
      next
        case (Cons song rest)
        show ?thesis
        proof (cases "StreamURL song = []")
          case True
          then obtain song' where "EnsureStreamInfo_i c (ensure_calls s) song = Inr song'"
            using False Inr Cons by (cases "EnsureStreamInfo_i c (ensure_calls s) song") (auto simp: attempt_fails_def)
          then show ?thesis using step(2) Inr Cons True by auto
        next
          case False
          then show ?thesis using step(2) Inr Cons by auto
        qed
      qed
    qed
  qed
qed

lemma playRandomSong_frame:
  assumes "playRandomSong c s = Some (Inr (r, s1))"
  shows "isRadio s1 = isRadio s" "subscribers s1 = subscribers s"
    "filter is_radio_failed (logger s1) = filter is_radio_failed (logger s)"
    "r \<noteq> None \<Longrightarrow> player s1 = player s"
  using playRandomSong_frame_aux [OF assms] by simp_all




lemma playRandomSong_plays:
  "GetRandomSongs_i c (random_calls s) 1 = Inr (T # ts) \<Longrightarrow>
   (if StreamURL T = [] then EnsureStreamInfo_i c (ensure_calls s) T else Inr T) = Inr T' \<Longrightarrow>
     playRandomSong c s =
       Some (Inr (None, s\<lparr>random_calls := Suc (random_calls s),
          ensure_calls := (if StreamURL T = [] then Suc (ensure_calls s) else ensure_calls s),
          player := Player_Play T' (player s)\<rparr>))"
  by (subst playRandomSong.simps) (simp split: if_splits)


lemma playRandomSong_outcome_aux:
  assumes "playRandomSong c s = Some res"
  shows "\<forall>r s1. res = Inr (r, s1) \<longrightarrow>
           (case r of
              None \<Rightarrow> (\<exists>song. player s1 = Player_Play song (player s))
            | Some e \<Rightarrow> (\<exists>k e0. GetRandomSongs_i c k 1 = Inl e0
                            \<and> e = Wrap e0 ''get 1 random song from bd''))"
  using assms
proof (induction rule: playRandomSong.raw_induct [rotated, consumes 1, case_names step])
  case (step f c s res)
  show ?case
  proof (cases "attempt_fails c (random_calls s) (ensure_calls s)")
    case True
    then have "f c (retry_state c s) = Some res"
      using step(2) by (auto simp: attempt_fails_def retry_state_def split: sum.splits list.splits)
    from step(1) [OF this] have IH: "\<forall>r s1. res = Inr (r, s1) \<longrightarrow>
           (case r of
              None \<Rightarrow> (\<exists>song. player s1 = Player_Play song (player (retry_state c s)))
            | Some e \<Rightarrow> (\<exists>k e0. GetRandomSongs_i c k 1 = Inl e0
                            \<and> e = Wrap e0 ''get 1 random song from bd''))" .
    show ?thesis
    proof (intro allI impI)
      fix r s1
      assume "res = Inr (r, s1)"
      with IH have "(case r of
              None \<Rightarrow> (\<exists>song. player s1 = Player_Play song (player (retry_state c s)))
            | Some e \<Rightarrow> (\<exists>k e0. GetRandomSongs_i c k 1 = Inl e0
                            \<and> e = Wrap e0 ''get 1 random song from bd''))"
        by blast
      then show "(case r of
              None \<Rightarrow> (\<exists>song. player s1 = Player_Play song (player s))
            | Some e \<Rightarrow> (\<exists>k e0. GetRandomSongs_i c k 1 = Inl e0
                            \<and> e = Wrap e0 ''get 1 random song from bd''))"
        by (simp add: retry_state_fields split: option.splits)
    qed
  next
    case False
    show ?thesis
    proof (cases "GetRandomSongs_i c (random_calls s) 1")
      case (Inl err)
      then show ?thesis using step(2) by auto
    next
      case (Inr sl)
      show ?thesis
      proof (cases sl)
        case Nil
        then show ?thesis using step(2) Inr by auto
      next
        case (Cons song rest)
        show ?thesis
        proof (cases "StreamURL song = []")
          case True
          then obtain song' where "EnsureStreamInfo_i c (ensure_calls s) song = Inr song'"
            using False Inr Cons by (cases "EnsureStreamInfo_i c (ensure_calls s) song") (auto simp: attempt_fails_def)
          then show ?thesis using step(2) Inr Cons True by auto
        next
          case False
          then show ?thesis using step(2) Inr Cons by auto
        qed
      qed
    qed
  qed
qed

lemma attempt_fails_unresolvable: "attempt_fails collab_unresolvable r e"
  by (simp add: attempt_fails_def collab_unresolvable_def collab_ok_def song_U_def emptySong_def)

lemma handleError_subscribers:
  assumes "handleError c err s = Some (Inr s')"
  shows "subscribers s' = subscribers s"
proof (cases "errors_Is err ErrQueueEmpty \<and> RadioStatus s")
  case True
  show ?thesis
  proof (cases "playRandomSong c s")
    case None
    then show ?thesis using assms True by (simp add: handleError_def)
  next
    case (Some res)
    show ?thesis
    proof (cases res)
      case (Inl p)
      then show ?thesis using assms True Some by (simp add: handleError_def)
    next
      case (Inr rs)
      obtain r s1 where rs: "rs = (r, s1)" by (cases rs)
      have "subscribers s1 = subscribers s"
        using playRandomSong_frame(2) [of c s r s1] Some Inr rs by simp
      then show ?thesis using assms True Some Inr rs
        by (cases r) (auto simp: handleError_def setRadio_def)
    qed
  qed
next
  case False
  then show ?thesis using assms
    by (auto simp: handleError_def setRadio_def split: if_splits)
qed

lemma subscriber_wrapper_drops:
  "errors_Is err EOF \<or> errors_Is err ErrManualStop \<or> errors_Is err ErrQueueEmpty \<Longrightarrow>
     map (subscriber_wrapper err) subs = subs"
  by (induction subs) (simp_all add: subscriber_wrapper_def)

lemma subscriber_wrapper_passes:
  "\<not> (errors_Is err EOF \<or> errors_Is err ErrManualStop \<or> errors_Is err ErrQueueEmpty) \<Longrightarrow>
     map (subscriber_wrapper err) subs = map (\<lambda>seen. seen @ [err]) subs"
  by (induction subs) (simp_all add: subscriber_wrapper_def)

lemma playRandomSong_collab_ok:
  "playRandomSong collab_ok s =
     Some (Inr (None, s\<lparr>random_calls := Suc (random_calls s), ensure_calls := Suc (ensure_calls s),
        player := Player_Play (song_U\<lparr>StreamURL := ''stream/u1''\<rparr>) (player s)\<rparr>))"
  by (subst playRandomSong.simps) (simp add: collab_ok_def song_U_def emptySong_def)

lemma voice_accepts_collab_ok: "voice_accepts collab_ok g ch"
  by (simp add: collab_ok_def)

section \<open>The resolver and the store, step by step\<close>

lemma MergeNoOverride_keeps:
  "Title s \<noteq> [] \<Longrightarrow> Title (MergeNoOverride s other) = Title s"
  "ArtistName s \<noteq> [] \<Longrightarrow> ArtistName (MergeNoOverride s other) = ArtistName s"
  "ArtworkURL s \<noteq> [] \<Longrightarrow> ArtworkURL (MergeNoOverride s other) = ArtworkURL s"
  "ThumbnailURL s \<noteq> [] \<Longrightarrow> ThumbnailURL (MergeNoOverride s other) = ThumbnailURL s"
  "id_ID (ID s) \<noteq> [] \<Longrightarrow> id_ID (ID (MergeNoOverride s other)) = id_ID (ID s)"
  "id_Service (ID s) \<noteq> [] \<Longrightarrow> id_Service (ID (MergeNoOverride s other)) = id_Service (ID s)"
  by (simp_all add: MergeNoOverride_def split: option.splits)

lemma MergeNoOverride_songFromInfo:
  "StreamURL (MergeNoOverride s (Some (songFromInfo v))) = StreamURL s"
  "Duration (MergeNoOverride s (Some (songFromInfo v))) = (if Duration s = 0 then v_Duration v else Duration s)"
  by (simp_all add: MergeNoOverride_def songFromInfo_def split: prod.splits)

lemma EnsureStreamInfo_hit:
  "cache_Get y (KeyFromID (ID song)) = Some cached \<Longrightarrow>
     EnsureStreamInfo y song = Inr (song\<lparr>StreamURL := StreamURL cached, Duration := Duration cached\<rparr>)"
  by (simp add: EnsureStreamInfo_def)

lemma EnsureStreamInfo_miss:
  assumes "cache_Get y (KeyFromID (ID song)) = None" and "EnsureStreamInfo y song = Inr song'"
  shows "\<exists>v u. ytdl_GetVideo y (URL song) = Inr v \<and> audio_formats v \<noteq> []
           \<and> (if Download (config y)
                then dl_Download y v (last (Formats_Sort y (audio_formats v))) (v_ID v @ videoFormat) = None
                     \<and> u = filepath_Join y (OutputDir (config y)) (v_ID v @ videoFormat)
                else ytdl_GetStreamURL y v (hd (sort_key ItagNo (audio_formats v))) = Inr u)
           \<and> song' = MergeNoOverride (song\<lparr>StreamURL := u\<rparr>) (Some (songFromInfo v))"
proof (cases "ytdl_GetVideo y (URL song)")
  case (Inl err)
  then show ?thesis using assms by (simp add: EnsureStreamInfo_def)
next
  case (Inr v)
  show ?thesis
  proof (cases "Download (config y)")
    case True
    then show ?thesis using assms Inr
      by (simp add: EnsureStreamInfo_def Let_def split: if_splits option.splits)
  next
    case False
    then show ?thesis using assms Inr
      by (simp add: EnsureStreamInfo_def Let_def split: if_splits sum.splits)
  qed
qed







section \<open>Stop and Disconnect switch the radio off\<close>

text \<open>
  Claim C9. After \<open>Service.Stop\<close> and after \<open>Service.Disconnect\<close> the radio flag is
  false, whatever the flag and the player were before.
\<close>

theorem radio_off_after_Stop_Disconnect:
  "RadioStatus (Stop s) = False \<and> RadioStatus (Disconnect s) = False"
  by (simp add: RadioStatus_def Stop_def Disconnect_def setRadio_def Let_def)

theorem radio_off_after_Stop_Disconnect_witness:
  "RadioStatus service_radio \<and> RadioStatus (Stop service_radio) = False
   \<and> RadioStatus (Disconnect service_radio) = False"
  using radio_off_after_Stop_Disconnect [of service_radio]
  by (simp add: RadioStatus_def service_radio_def)

section \<open>Play without a connection\<close>

text \<open>
  Claim C2. When the voice transport is not connected and the guild or the channel
  identifier is empty, \<open>Service.Play\<close> returns \<open>ErrNotConnected\<close> and no track (and
  leaves the service as it was). When a connection exists or both identifiers are
  given, the error it returns is not \<open>ErrNotConnected\<close>; nor does it wrap
  \<open>ErrNotConnected\<close>, as long as the errors of the resolver and of the store do not.
\<close>

theorem Play_not_connected:
  "(\<not> IsConnected (player s) \<and> (guildID = [] \<or> channelID = []) \<longrightarrow>
      Play c query userID guildID channelID s = ((None, 0, Some ErrNotConnected), s))
   \<and> (IsConnected (player s) \<or> (guildID \<noteq> [] \<and> channelID \<noteq> []) \<longrightarrow>
      snd (snd (fst (Play c query userID guildID channelID s))) \<noteq> Some ErrNotConnected
      \<and> ((\<forall>e. FindSong_i c query = Inl e \<longrightarrow> \<not> errors_Is e ErrNotConnected)
          \<and> (\<forall>sg sg' k e. UpsertSongIncPlaybacks_i c sg = (sg', k, Some e) \<longrightarrow>
                \<not> errors_Is e ErrNotConnected) \<longrightarrow>
          (\<forall>e. snd (snd (fst (Play c query userID guildID channelID s))) = Some e \<longrightarrow>
                \<not> errors_Is e ErrNotConnected)))"
proof (intro conjI impI allI)
  assume "\<not> IsConnected (player s) \<and> (guildID = [] \<or> channelID = [])"
  then show "Play c query userID guildID channelID s = ((None, 0, Some ErrNotConnected), s)"
    by (auto simp: Play_def)
next
  assume "IsConnected (player s) \<or> (guildID \<noteq> [] \<and> channelID \<noteq> [])"
  then show "snd (snd (fst (Play c query userID guildID channelID s))) \<noteq> Some ErrNotConnected"
    by (auto simp: Play_def Let_def split: sum.splits prod.splits option.splits)
next
  fix e
  assume conn: "IsConnected (player s) \<or> (guildID \<noteq> [] \<and> channelID \<noteq> [])"
    and coll: "(\<forall>e. FindSong_i c query = Inl e \<longrightarrow> \<not> errors_Is e ErrNotConnected)
          \<and> (\<forall>sg sg' k e. UpsertSongIncPlaybacks_i c sg = (sg', k, Some e) \<longrightarrow>
                \<not> errors_Is e ErrNotConnected)"
    and res: "snd (snd (fst (Play c query userID guildID channelID s))) = Some e"
  have guard: "\<not> (\<not> IsConnected (player s) \<and> (channelID = [] \<or> guildID = []))"
    using conn by blast
  show "\<not> errors_Is e ErrNotConnected"
  proof (cases "FindSong_i c query")
    case (Inl e0)
    then have "e = Wrap e0 ''find and load song from youtube''"
      using res guard by (simp add: Play_def Let_def)
    then show ?thesis using coll Inl by simp
  next
    case (Inr song)
    obtain sg' k r where u: "UpsertSongIncPlaybacks_i c (song\<lparr>LastPlay := time_Now c\<rparr>) = (sg', k, r)"
      by (cases "UpsertSongIncPlaybacks_i c (song\<lparr>LastPlay := time_Now c\<rparr>)") auto
    then obtain e1 where r: "r = Some e1" and e: "e = Wrap e1 ''upsert song with increment''"
      using res guard Inr by (cases r) (simp_all add: Play_def Let_def)
    have "\<not> errors_Is e1 ErrNotConnected" using coll u r by blast
    then show ?thesis using e by simp
  qed
qed

theorem Play_not_connected_witness:
  "\<not> IsConnected (player service_idle)
   \<and> Play collab_ok ''q'' ''u'' [] ''ch'' service_idle = ((None, 0, Some ErrNotConnected), service_idle)
   \<and> snd (snd (fst (Play collab_ok ''q'' ''u'' ''g'' ''ch'' service_idle))) \<noteq> Some ErrNotConnected
   \<and> snd (snd (fst (Play collab_store_down ''q'' ''u'' ''g'' ''ch'' service_idle)))
       = Some (Wrap (New ''db down'') ''upsert song with increment'')
   \<and> \<not> errors_Is (Wrap (New ''db down'') ''upsert song with increment'') ErrNotConnected"
proof -
  have h1: "\<not> IsConnected (player service_idle)"
    by (simp add: service_idle_def player_idle_def IsConnected_def)
  have h2: "\<forall>e. FindSong_i collab_store_down ''q'' = Inl e \<longrightarrow> \<not> errors_Is e ErrNotConnected"
    by (simp add: collab_store_down_def collab_ok_def)
  have h3: "\<forall>sg sg' k e. UpsertSongIncPlaybacks_i collab_store_down sg = (sg', k, Some e) \<longrightarrow>
                \<not> errors_Is e ErrNotConnected"
    by (auto simp: collab_store_down_def collab_ok_def)
  have g1: "\<not> IsConnected (player service_idle) \<and> (([]::string) = [] \<or> ''ch'' = [])"
    using h1 by simp
  have g2: "IsConnected (player service_idle) \<or> (''g'' \<noteq> [] \<and> ''ch'' \<noteq> [])"
    by simp
  note a = Play_not_connected [of service_idle "[]" "''ch''" collab_ok "''q''" "''u''"]
  note b = Play_not_connected [of service_idle "''g''" "''ch''" collab_ok "''q''" "''u''"]
  note d = Play_not_connected [of service_idle "''g''" "''ch''" collab_store_down "''q''" "''u''"]
  have r1: "Play collab_ok ''q'' ''u'' [] ''ch'' service_idle
              = ((None, 0, Some ErrNotConnected), service_idle)"
    using a g1 by blast
  have r2: "snd (snd (fst (Play collab_ok ''q'' ''u'' ''g'' ''ch'' service_idle))) \<noteq> Some ErrNotConnected"
    using b g2 by blast
  have r3: "snd (snd (fst (Play collab_store_down ''q'' ''u'' ''g'' ''ch'' service_idle)))
       = Some (Wrap (New ''db down'') ''upsert song with increment'')"
    by (simp add: Play_def Let_def collab_store_down_def collab_ok_def)
  have r4: "\<not> errors_Is (Wrap (New ''db down'') ''upsert song with increment'') ErrNotConnected"
    using d g2 h2 h3 r3 by blast
  from h1 r1 r2 r3 r4 show ?thesis by blast
qed

section \<open>The radio refills the player when the queue runs empty\<close>

text \<open>
  Claim C1. When the empty-queue event reaches \<open>handleError\<close> while the radio flag is
  set, the provider is asked for one random track; when the first track of its answer has
  no stream reference the resolver is called on it (and only then); and the player's
  \<open>Play\<close> is called with the resulting track \<open>T'\<close>. The flag stays set. A connected
  player with nothing playing and an empty queue is then playing \<open>T'\<close>.
\<close>

theorem radio_refill_on_QueueEmpty:
  assumes "errors_Is err ErrQueueEmpty" and "RadioStatus s"
    and "GetRandomSongs_i c (random_calls s) 1 = Inr (T # ts)"
    and "(if StreamURL T = [] then EnsureStreamInfo_i c (ensure_calls s) T else Inr T) = Inr T'"
  shows "\<exists>s'. handleError c err s = Some (Inr s')
           \<and> player s' = Player_Play T' (player s)
           \<and> random_calls s' = Suc (random_calls s)
           \<and> ensure_calls s' = (if StreamURL T = [] then Suc (ensure_calls s) else ensure_calls s)
           \<and> RadioStatus s'
           \<and> (IsConnected (player s) \<and> NowPlaying (player s) = None \<and> queue (player s) = [] \<longrightarrow>
                NowPlaying (player s') = Some T' \<and> pstate (player s') = Playing)"
  using assms(1,2) playRandomSong_plays [OF assms(3,4)]
  by (simp add: handleError_def RadioStatus_def IsConnected_def NowPlaying_def Player_Play_def)


theorem radio_refill_on_QueueEmpty_witness:
  "errors_Is ErrQueueEmpty ErrQueueEmpty \<and> RadioStatus service_radio
   \<and> GetRandomSongs_i collab_ok (random_calls service_radio) 1 = Inr [song_U]
   \<and> (\<exists>s'. handleError collab_ok ErrQueueEmpty service_radio = Some (Inr s')
         \<and> NowPlaying (player s') = Some (song_U\<lparr>StreamURL := ''stream/u1''\<rparr>)
         \<and> pstate (player s') = Playing)"
proof -
  have h1: "errors_Is ErrQueueEmpty ErrQueueEmpty" by simp
  have h2: "RadioStatus service_radio" by (simp add: RadioStatus_def service_radio_def)
  have h3: "GetRandomSongs_i collab_ok (random_calls service_radio) 1 = Inr [song_U]"
    by (simp add: collab_ok_def)
  have h4: "(if StreamURL song_U = [] then EnsureStreamInfo_i collab_ok (ensure_calls service_radio) song_U
             else Inr song_U) = Inr (song_U\<lparr>StreamURL := ''stream/u1''\<rparr>)"
    by (simp add: collab_ok_def song_U_def emptySong_def)
  have h5: "IsConnected (player service_radio) \<and> NowPlaying (player service_radio) = None
            \<and> queue (player service_radio) = []"
    by (simp add: IsConnected_def NowPlaying_def service_radio_def player_stopped_def)
  from radio_refill_on_QueueEmpty [OF h1 h2 h3 h4] h5 h1 h2 h3 show ?thesis
    by blast
qed

section \<open>The provider has no candidates\<close>




section \<open>The retry of the refill\<close>

text \<open>
  Claim C5, as the code has it. As stated the claim fails: the retry is a call of
  \<open>playRandomSong\<close> by itself, with no bound. With a provider that always returns a
  song without stream reference and a resolver that always fails, the refill never
  returns.
\<close>

theorem refill_never_returns_counterexample:
  "playRandomSong collab_unresolvable service_radio = None"
  by (rule playRandomSong_never_returns) (rule attempt_fails_unresolvable)

text \<open>
  Claim C5, amended. When the resolution of the selected track fails, the refill asks
  the provider for another random track, by calling itself. It returns exactly when some
  attempt does not fail in this way, and then it has either called the player's \<open>Play\<close>
  with a track or it returns the provider's error; when every attempt fails it never
  returns, since nothing bounds the number of attempts.
\<close>

theorem refill_retries_until_resolved_or_exhausted:
  "(attempt_fails c (random_calls s) (ensure_calls s) \<longrightarrow>
      playRandomSong c s = playRandomSong c (retry_state c s)
      \<and> random_calls (retry_state c s) = Suc (random_calls s))
   \<and> ((\<exists>res. playRandomSong c s = Some res) \<longleftrightarrow>
        (\<exists>n. \<not> attempt_fails c (random_calls s + n) (ensure_calls s + n)))
   \<and> (\<forall>r s1. playRandomSong c s = Some (Inr (r, s1)) \<longrightarrow>
        (case r of
           None \<Rightarrow> (\<exists>song. player s1 = Player_Play song (player s))
         | Some e \<Rightarrow> (\<exists>k e0. GetRandomSongs_i c k 1 = Inl e0
                         \<and> e = Wrap e0 ''get 1 random song from bd'')))"
proof (intro conjI)
  show "attempt_fails c (random_calls s) (ensure_calls s) \<longrightarrow>
      playRandomSong c s = playRandomSong c (retry_state c s)
      \<and> random_calls (retry_state c s) = Suc (random_calls s)"
    using playRandomSong_retry [of c s] by (simp add: retry_state_fields)
  show "(\<exists>res. playRandomSong c s = Some res) \<longleftrightarrow>
        (\<exists>n. \<not> attempt_fails c (random_calls s + n) (ensure_calls s + n))"
    using playRandomSong_returned [of c s] playRandomSong_returns [of c s] by blast
  show "\<forall>r s1. playRandomSong c s = Some (Inr (r, s1)) \<longrightarrow>
        (case r of
           None \<Rightarrow> (\<exists>song. player s1 = Player_Play song (player s))
         | Some e \<Rightarrow> (\<exists>k e0. GetRandomSongs_i c k 1 = Inl e0
                         \<and> e = Wrap e0 ''get 1 random song from bd''))"
    using playRandomSong_outcome_aux [of c s] by blast
qed

theorem refill_retries_until_resolved_or_exhausted_witness:
  "attempt_fails collab_flaky (random_calls service_radio) (ensure_calls service_radio)
   \<and> \<not> attempt_fails collab_flaky (random_calls service_radio + 2) (ensure_calls service_radio + 2)
   \<and> playRandomSong collab_flaky service_radio = playRandomSong collab_flaky (retry_state collab_flaky service_radio)
   \<and> (\<exists>res. playRandomSong collab_flaky service_radio = Some res)"
proof -
  have h1: "attempt_fails collab_flaky (random_calls service_radio) (ensure_calls service_radio)"
    by (simp add: attempt_fails_def collab_flaky_def collab_ok_def song_U_def emptySong_def
        service_radio_def)
  have h2: "\<not> attempt_fails collab_flaky (random_calls service_radio + 2) (ensure_calls service_radio + 2)"
    by (simp add: attempt_fails_def collab_flaky_def collab_ok_def song_U_def emptySong_def
        service_radio_def)
  from refill_retries_until_resolved_or_exhausted [of collab_flaky service_radio] h1 h2
  show ?thesis by blast
qed


section \<open>What the subscribers of the service see\<close>

text \<open>
  Claim C4. A handler registered through \<open>Service.SubscribeOnErrors\<close> starts with
  nothing received, and an event that is \<open>io.EOF\<close>, the manual stop or the empty queue
  leaves what every handler has received unchanged. Every other error is always
  delivered: each handler receives it once, and the radio flag is false afterwards.
\<close>

theorem subscribers_see_only_failures:
  "(\<forall>s'. deliver c err s = Some (Inr s') \<longrightarrow>
      (errors_Is err EOF \<or> errors_Is err ErrManualStop \<or> errors_Is err ErrQueueEmpty \<longrightarrow>
         subscribers s' = subscribers s)
      \<and> (\<not> (errors_Is err EOF \<or> errors_Is err ErrManualStop \<or> errors_Is err ErrQueueEmpty) \<longrightarrow>
         subscribers s' = map (\<lambda>seen. seen @ [err]) (subscribers s) \<and> \<not> RadioStatus s'))
   \<and> (\<not> errors_Is err ErrQueueEmpty \<longrightarrow> (\<exists>s'. deliver c err s = Some (Inr s')))
   \<and> subscribers (SubscribeOnErrors s) = subscribers s @ [[]]"
proof (intro conjI allI impI)
  fix s'
  assume d: "deliver c err s = Some (Inr s')"
  then obtain s1 where h: "handleError c err s = Some (Inr s1)"
    and s': "s' = s1\<lparr>subscribers := map (subscriber_wrapper err) (subscribers s1)\<rparr>"
    by (auto simp: deliver_def split: option.splits sum.splits)
  have subs: "subscribers s1 = subscribers s" using h by (rule handleError_subscribers)
  {
    assume "errors_Is err EOF \<or> errors_Is err ErrManualStop \<or> errors_Is err ErrQueueEmpty"
    then show "subscribers s' = subscribers s"
      using s' subs by (simp add: subscriber_wrapper_drops)
  }
  {
    assume n: "\<not> (errors_Is err EOF \<or> errors_Is err ErrManualStop \<or> errors_Is err ErrQueueEmpty)"
    then show "subscribers s' = map (\<lambda>seen. seen @ [err]) (subscribers s)"
      using s' subs by (simp add: subscriber_wrapper_passes)
    show "\<not> RadioStatus s'"
      using n h s' by (auto simp: handleError_def setRadio_def RadioStatus_def)
  }
next
  assume "\<not> errors_Is err ErrQueueEmpty"
  then show "\<exists>s'. deliver c err s = Some (Inr s')"
    by (simp add: deliver_def handleError_def)
next
  show "subscribers (SubscribeOnErrors s) = subscribers s @ [[]]"
    by (simp add: SubscribeOnErrors_def)
qed

theorem subscribers_see_only_failures_witness:
  "\<not> errors_Is (New ''stream broke'') ErrQueueEmpty
   \<and> (\<exists>s'. deliver collab_ok (New ''stream broke'') service_radio = Some (Inr s')
         \<and> subscribers s' = [[New ''stream broke'']] \<and> \<not> RadioStatus s')
   \<and> (\<exists>s'. deliver collab_ok ErrManualStop service_radio = Some (Inr s')
         \<and> subscribers s' = [[]])"
proof -
  have h0: "subscribers service_radio = [[]]" by (simp add: service_radio_def)
  have h1: "\<not> (errors_Is (New ''stream broke'') EOF \<or> errors_Is (New ''stream broke'') ErrManualStop
              \<or> errors_Is (New ''stream broke'') ErrQueueEmpty)" by simp
  have h2: "errors_Is ErrManualStop EOF \<or> errors_Is ErrManualStop ErrManualStop
              \<or> errors_Is ErrManualStop ErrQueueEmpty" by simp
  have h3: "\<not> errors_Is ErrManualStop ErrQueueEmpty" by simp
  from subscribers_see_only_failures [of collab_ok "New ''stream broke''" service_radio]
    subscribers_see_only_failures [of collab_ok ErrManualStop service_radio] h0 h1 h2 h3
  show ?thesis by (auto simp del: errors_Is.simps)
qed


section \<open>Switching the radio on\<close>

text \<open>
  Claim C6. \<open>SetRadio(true, guildID, channelID)\<close>: when the transport is not connected
  and the guild or the channel identifier is empty, it returns \<open>ErrNotConnected\<close>;
  when it is not connected and both are given, it connects; and then, as when it was
  connected already, it runs \<open>playRandomSong\<close> at once if nothing is playing, and
  returns no error otherwise.
\<close>

theorem SetRadio_enable:
  "(\<not> IsConnected (player s) \<and> (guildID = [] \<or> channelID = []) \<longrightarrow>
      SetRadio c True guildID channelID s = Some (Inr (Some ErrNotConnected, setRadio True s)))
   \<and> (\<not> IsConnected (player s) \<and> guildID \<noteq> [] \<and> channelID \<noteq> [] \<longrightarrow>
      SetRadio c True guildID channelID s =
        (let s2 = (setRadio True s)\<lparr>player := Player_Connect (voice_accepts c) guildID channelID (player s)\<rparr>
         in if NowPlaying (player s2) = None then playRandomSong c s2 else Some (Inr (None, s2))))
   \<and> (IsConnected (player s) \<longrightarrow>
      SetRadio c True guildID channelID s =
        (if NowPlaying (player s) = None then playRandomSong c (setRadio True s)
         else Some (Inr (None, setRadio True s))))"
  by (simp add: SetRadio_def setRadio_def Let_def)

theorem SetRadio_enable_witness:
  "\<not> IsConnected (player service_idle)
   \<and> SetRadio collab_ok True [] ''ch'' service_idle
       = Some (Inr (Some ErrNotConnected, service_idle\<lparr>isRadio := True\<rparr>))
   \<and> (\<exists>s'. SetRadio collab_ok True ''g'' ''ch'' service_idle = Some (Inr (None, s'))
         \<and> IsConnected (player s')
         \<and> NowPlaying (player s') = Some (song_U\<lparr>StreamURL := ''stream/u1''\<rparr>))
   \<and> IsConnected (player service_radio)
   \<and> (\<exists>s'. SetRadio collab_ok True [] [] service_radio = Some (Inr (None, s'))
         \<and> NowPlaying (player s') = Some (song_U\<lparr>StreamURL := ''stream/u1''\<rparr>))"
proof -
  have h1: "\<not> IsConnected (player service_idle)"
    by (simp add: IsConnected_def service_idle_def player_idle_def)
  have h2: "IsConnected (player service_radio)"
    by (simp add: IsConnected_def service_radio_def player_stopped_def)
  have a: "SetRadio collab_ok True [] ''ch'' service_idle
       = Some (Inr (Some ErrNotConnected, service_idle\<lparr>isRadio := True\<rparr>))"
    using SetRadio_enable [of service_idle "[]" "''ch''" collab_ok] h1
    by (simp add: setRadio_def)
  have b: "\<exists>s'. SetRadio collab_ok True ''g'' ''ch'' service_idle = Some (Inr (None, s'))
         \<and> IsConnected (player s')
         \<and> NowPlaying (player s') = Some (song_U\<lparr>StreamURL := ''stream/u1''\<rparr>)"
    using SetRadio_enable [of service_idle "''g''" "''ch''" collab_ok] h1
    by (simp add: playRandomSong_collab_ok voice_accepts_collab_ok setRadio_def Let_def
        NowPlaying_def IsConnected_def Player_Connect_def Player_Play_def service_idle_def
        player_idle_def)
  have c: "\<exists>s'. SetRadio collab_ok True [] [] service_radio = Some (Inr (None, s'))
         \<and> NowPlaying (player s') = Some (song_U\<lparr>StreamURL := ''stream/u1''\<rparr>)"
    using SetRadio_enable [of service_radio "[]" "[]" collab_ok] h2
    by (simp add: playRandomSong_collab_ok setRadio_def NowPlaying_def
        Player_Play_def service_radio_def player_stopped_def)
  from h1 h2 a b c show ?thesis by blast
qed

section \<open>A failing store does not stop playback\<close>

text \<open>
  Claim C10. When \<open>Service.Play\<close> passes its connection check, the song is found and
  \<open>UpsertSongIncPlaybacks\<close> returns an error, \<open>Play\<close> still calls the player's
  \<open>Play\<close> with the song and returns the song together with the wrapped error of the
  store. A connected player with nothing playing and an empty queue is then playing it.
\<close>

theorem Play_despite_storage_failure:
  assumes "IsConnected (player s) \<or> (guildID \<noteq> [] \<and> channelID \<noteq> [])"
    and "FindSong_i c query = Inr song"
    and "UpsertSongIncPlaybacks_i c (song\<lparr>LastPlay := time_Now c\<rparr>) = (song2, n, Some e)"
  shows "(let song3 = (if userID \<noteq> [] then IncrementUserRequests_i c song2 userID else song2);
              p2 = (if channelID \<noteq> [] \<or> guildID \<noteq> []
                    then Player_Connect (voice_accepts c) guildID channelID (player s)
                    else player s)
          in fst (Play c query userID guildID channelID s)
               = (Some song3, n, Some (Wrap e ''upsert song with increment''))
             \<and> player (snd (Play c query userID guildID channelID s)) = Player_Play song3 p2
             \<and> (IsConnected p2 \<and> NowPlaying p2 = None \<and> queue p2 = [] \<longrightarrow>
                  NowPlaying (player (snd (Play c query userID guildID channelID s))) = Some song3
                  \<and> pstate (player (snd (Play c query userID guildID channelID s))) = Playing))"
proof -
  let ?song3 = "if userID \<noteq> [] then IncrementUserRequests_i c song2 userID else song2"
  let ?s1 = "s\<lparr>logger := logger s @ [LogDebug ''Finding song'']\<rparr>"
  let ?s2 = "if channelID \<noteq> [] \<or> guildID \<noteq> [] then Connect c guildID channelID ?s1 else ?s1"
  let ?p2 = "if channelID \<noteq> [] \<or> guildID \<noteq> []
             then Player_Connect (voice_accepts c) guildID channelID (player s) else player s"
  have guard: "\<not> (\<not> IsConnected (player s) \<and> (channelID = [] \<or> guildID = []))"
    using assms(1) by blast
  have P: "Play c query userID guildID channelID s =
      ((Some ?song3, n, Some (Wrap e ''upsert song with increment'')),
       ?s2\<lparr>player := Player_Play ?song3 (player ?s2)\<rparr>)"
    unfolding Play_def using guard assms(2,3) by (simp add: Let_def)
  have p2: "player ?s2 = ?p2" by (simp add: Connect_def)
  have Q: "IsConnected ?p2 \<and> NowPlaying ?p2 = None \<and> queue ?p2 = [] \<longrightarrow>
      NowPlaying (Player_Play ?song3 ?p2) = Some ?song3 \<and> pstate (Player_Play ?song3 ?p2) = Playing"
    by (simp add: IsConnected_def NowPlaying_def Player_Play_def)
  show ?thesis
    unfolding Let_def P fst_conv snd_conv using p2 Q by simp
qed

theorem Play_despite_storage_failure_witness:
  "IsConnected (player service_radio)
   \<and> FindSong_i collab_store_down ''q'' = Inr song_T
   \<and> fst (Play collab_store_down ''q'' [] [] [] service_radio)
       = (Some (song_T\<lparr>LastPlay := 7\<rparr>), 0, Some (Wrap (New ''db down'') ''upsert song with increment''))
   \<and> NowPlaying (player (snd (Play collab_store_down ''q'' [] [] [] service_radio)))
       = Some (song_T\<lparr>LastPlay := 7\<rparr>)"
proof -
  have h1: "IsConnected (player service_radio) \<or> (([]::string) \<noteq> [] \<and> ([]::string) \<noteq> [])"
    by (simp add: IsConnected_def service_radio_def player_stopped_def)
  have h2: "FindSong_i collab_store_down ''q'' = Inr song_T"
    by (simp add: collab_store_down_def collab_ok_def)
  have h3: "UpsertSongIncPlaybacks_i collab_store_down (song_T\<lparr>LastPlay := time_Now collab_store_down\<rparr>)
              = (song_T\<lparr>LastPlay := 7\<rparr>, 0, Some (New ''db down''))"
    by (simp add: collab_store_down_def collab_ok_def)
  from Play_despite_storage_failure [OF h1 h2 h3, of "[]"] h1 h2 show ?thesis
    by (simp add: Let_def IsConnected_def NowPlaying_def Player_Play_def service_radio_def
        player_stopped_def)
qed

section \<open>What the resolver changes in a track\<close>

text \<open>
  Claim C7, as the code has it. As stated the claim fails: \<open>EnsureStreamInfo\<close> assigns
  the stream reference whatever it was. On a cache hit a track with a stream reference
  comes back with the cached one, and a track whose cached entry has no stream reference
  comes back without one.
\<close>

theorem EnsureStreamInfo_overrides_stream_counterexample:
  "EnsureStreamInfo youtube_cached song_T = Inr (song_T\<lparr>StreamURL := ''stream/cached'', Duration := 200\<rparr>)
   \<and> StreamURL song_T = ''stream/t1''
   \<and> EnsureStreamInfo youtube_cached song_U = Inr song_U
   \<and> StreamURL song_U = [] \<and> Duration song_U = 0"
  by (simp add: EnsureStreamInfo_def youtube_cached_def KeyFromID_def song_T_def song_U_def emptySong_def)

text \<open>
  Claim C7, amended. A track that \<open>EnsureStreamInfo\<close> returns keeps every populated
  field among identity, title, artist, artwork and thumbnail. Its stream reference is
  replaced: on a cache hit by the cached entry's stream reference, together with the
  cached duration; otherwise by the stream URL just resolved or, in download mode, the
  path of the downloaded file, and a duration of zero is filled in from the video.
\<close>

theorem EnsureStreamInfo_keeps_metadata:
  assumes "EnsureStreamInfo y song = Inr song'"
  shows "(id_ID (ID song) \<noteq> [] \<longrightarrow> id_ID (ID song') = id_ID (ID song))
       \<and> (id_Service (ID song) \<noteq> [] \<longrightarrow> id_Service (ID song') = id_Service (ID song))
       \<and> (Title song \<noteq> [] \<longrightarrow> Title song' = Title song)
       \<and> (ArtistName song \<noteq> [] \<longrightarrow> ArtistName song' = ArtistName song)
       \<and> (ArtworkURL song \<noteq> [] \<longrightarrow> ArtworkURL song' = ArtworkURL song)
       \<and> (ThumbnailURL song \<noteq> [] \<longrightarrow> ThumbnailURL song' = ThumbnailURL song)
       \<and> (case cache_Get y (KeyFromID (ID song)) of
             Some cached \<Rightarrow> StreamURL song' = StreamURL cached \<and> Duration song' = Duration cached
           | None \<Rightarrow>
               (\<exists>v. ytdl_GetVideo y (URL song) = Inr v
                  \<and> (if Download (config y)
                       then StreamURL song' = filepath_Join y (OutputDir (config y)) (v_ID v @ videoFormat)
                       else ytdl_GetStreamURL y v (hd (sort_key ItagNo (audio_formats v)))
                              = Inr (StreamURL song'))
                  \<and> Duration song' = (if Duration song = 0 then v_Duration v else Duration song)))"
proof (cases "cache_Get y (KeyFromID (ID song))")
  case (Some cached)
  have "song' = song\<lparr>StreamURL := StreamURL cached, Duration := Duration cached\<rparr>"
    using EnsureStreamInfo_hit [OF Some] assms by simp
  then show ?thesis using Some by simp
next
  case None
  from EnsureStreamInfo_miss [OF None assms] obtain v u where
    v: "ytdl_GetVideo y (URL song) = Inr v"
    and u: "if Download (config y)
            then dl_Download y v (last (Formats_Sort y (audio_formats v))) (v_ID v @ videoFormat) = None
                 \<and> u = filepath_Join y (OutputDir (config y)) (v_ID v @ videoFormat)
            else ytdl_GetStreamURL y v (hd (sort_key ItagNo (audio_formats v))) = Inr u"
    and s': "song' = MergeNoOverride (song\<lparr>StreamURL := u\<rparr>) (Some (songFromInfo v))"
    by blast
  have keep: "id_ID (ID song) \<noteq> [] \<longrightarrow> id_ID (ID song') = id_ID (ID song)"
    "id_Service (ID song) \<noteq> [] \<longrightarrow> id_Service (ID song') = id_Service (ID song)"
    "Title song \<noteq> [] \<longrightarrow> Title song' = Title song"
    "ArtistName song \<noteq> [] \<longrightarrow> ArtistName song' = ArtistName song"
    "ArtworkURL song \<noteq> [] \<longrightarrow> ArtworkURL song' = ArtworkURL song"
    "ThumbnailURL song \<noteq> [] \<longrightarrow> ThumbnailURL song' = ThumbnailURL song"
    unfolding s' by (simp_all add: MergeNoOverride_keeps)
  have st: "StreamURL song' = u"
    "Duration song' = (if Duration song = 0 then v_Duration v else Duration song)"
    unfolding s' by (simp_all add: MergeNoOverride_songFromInfo)
  have "if Download (config y)
        then StreamURL song' = filepath_Join y (OutputDir (config y)) (v_ID v @ videoFormat)
        else ytdl_GetStreamURL y v (hd (sort_key ItagNo (audio_formats v))) = Inr (StreamURL song')"
    using u st(1) by (simp split: if_splits)
  then show ?thesis using None keep v st(2) by simp
qed

theorem EnsureStreamInfo_keeps_metadata_witness:
  "EnsureStreamInfo youtube_live song_U =
     Inr (song_U\<lparr>ArtistName := ''artist'', ArtworkURL := ''thumb/u1'', ThumbnailURL := ''thumb/u1'',
            Service := ''youtube'', StreamURL := ''stream/live'', Duration := 180\<rparr>)
   \<and> Title song_U \<noteq> [] \<and> id_ID (ID song_U) \<noteq> []
   \<and> Title (song_U\<lparr>ArtistName := ''artist'', ArtworkURL := ''thumb/u1'', ThumbnailURL := ''thumb/u1'',
            Service := ''youtube'', StreamURL := ''stream/live'', Duration := 180\<rparr>) = Title song_U"
proof -
  have e: "EnsureStreamInfo youtube_live song_U =
     Inr (song_U\<lparr>ArtistName := ''artist'', ArtworkURL := ''thumb/u1'', ThumbnailURL := ''thumb/u1'',
            Service := ''youtube'', StreamURL := ''stream/live'', Duration := 180\<rparr>)"
    by (simp add: EnsureStreamInfo_def youtube_live_def video_u_def audio_formats_def videoType_def
        MergeNoOverride_def songFromInfo_def getYTDLImages_def videoPrefix_def ServiceYouTube_def
        song_U_def emptySong_def Let_def)
  have t: "Title song_U \<noteq> []" "id_ID (ID song_U) \<noteq> []"
    by (simp_all add: song_U_def emptySong_def)
  from EnsureStreamInfo_keeps_metadata [OF e] t e show ?thesis by simp
qed


section \<open>Counting a playback\<close>




end
